theory Spec2Isabelle
  imports Complex_Main "HOL-Library.Sublist"
begin

section \<open>JavaScript strings\<close>

text \<open>
  A JavaScript string is a sequence of UTF-16 code units. A code unit is modelled as a
  natural number (its value, below 65536); the program never does arithmetic on code units
  that could leave that range, it only compares them. \<open>str\<close> turns an ASCII literal of
  the source into its code units.
\<close>

type_synonym jschar = nat
type_synonym jsstring = "jschar list"

definition str :: "string \<Rightarrow> jsstring" where
  "str s = map of_char s"

text \<open>
  The code units that \<open>String.prototype.trim\<close> strips and that \<open>\s\<close> matches
  (WhiteSpace and LineTerminator of ECMAScript).
\<close>

definition isWhiteSpace :: "jschar \<Rightarrow> bool" where
  "isWhiteSpace c =
     (c = 0x09 \<or> c = 0x0A \<or> c = 0x0B \<or> c = 0x0C \<or> c = 0x0D \<or> c = 0x20 \<or> c = 0xA0 \<or>
      c = 0x1680 \<or> (0x2000 \<le> c \<and> c \<le> 0x200A) \<or> c = 0x2028 \<or> c = 0x2029 \<or>
      c = 0x202F \<or> c = 0x205F \<or> c = 0x3000 \<or> c = 0xFEFF)"

text \<open>\<open>trimEnd\<close> drops the trailing white space, \<open>trim\<close> both ends.\<close>

fun trimEnd :: "jsstring \<Rightarrow> jsstring" where
  "trimEnd [] = []"
| "trimEnd (c # cs) =
     (case trimEnd cs of
        [] \<Rightarrow> if isWhiteSpace c then [] else [c]
      | d # ds \<Rightarrow> c # d # ds)"

definition trim :: "jsstring \<Rightarrow> jsstring" where
  "trim s = trimEnd (dropWhile isWhiteSpace s)"

text \<open>\<open>Array.prototype.join\<close> on an array of strings.\<close>

fun join :: "jsstring \<Rightarrow> jsstring list \<Rightarrow> jsstring" where
  "join sep [] = []"
| "join sep [x] = x"
| "join sep (x # y # ys) = x @ sep @ join sep (y # ys)"

text \<open>
  \<open>Array.prototype.slice(start)\<close> with one argument: a negative start counts from the
  end, and both directions are clamped to the array.
\<close>

definition slice :: "int \<Rightarrow> 'a list \<Rightarrow> 'a list" where
  "slice start xs =
     (let len = int (length xs);
          k = (if start < 0 then max (len + start) 0 else min start len)
      in drop (nat k) xs)"

section \<open>JSON values\<close>

text \<open>
  The values that \<open>JSON.parse\<close> and \<open>response.json()\<close> produce. A number keeps
  the exact value of its literal; an object keeps its members in source order, and a later
  member with the same key overrides an earlier one.
\<close>

datatype json =
    JNull
  | JBool bool
  | JNum rat
  | JStr jsstring
  | JArr "json list"
  | JObj "(jsstring \<times> json) list"

section \<open>The conversation held by the chat page\<close>

datatype msgtype = User | Bot | Report

record message =
  type :: msgtype
  message :: jsstring
  timestamp :: nat
  report :: "json option"

text \<open>
  The state that \<open>handleClearChat\<close> touches: the \<open>chatHistory\<close> of the page and the
  browser's \<open>localStorage\<close>. The clock read by \<open>new Date()\<close> is an argument.
\<close>

record page =
  chatHistory :: "message list"
  localStorage :: "jsstring \<rightharpoonup> jsstring"

definition greeting :: jsstring where
  "greeting = [0xD83D, 0xDC4B] @ str '' Hi! I'm your Data Assistant. Upload a CSV file and ask me questions like 'Which product had the highest sales last month?' or 'Compare expenses across regions.' I'll analyze and give you real-time insights.''"

definition handleClearChat :: "nat \<Rightarrow> page \<Rightarrow> page" where
  "handleClearChat now st =
     (let initialMessage = \<lparr>type = Bot, message = greeting, timestamp = now, report = None\<rparr>
      in st\<lparr>chatHistory := [initialMessage],
            localStorage := (localStorage st)(str ''chat-csv-history'' := None)\<rparr>)"

section \<open>The chat route: recent history\<close>

text \<open>
  \<open>chatHistory.slice(-10).filter((msg) => msg.type === "user" || msg.type === "bot")\<close>
  and its rendering, as in both versions of the chat route.
\<close>

definition recentHistory :: "message list \<Rightarrow> message list" where
  "recentHistory history =
     filter (\<lambda>msg. type msg = User \<or> type msg = Bot) (slice (-10) history)"

definition historyContext :: "message list \<Rightarrow> jsstring" where
  "historyContext history =
     (let recent = recentHistory history
      in if length recent > 0
         then str ''\<newline>Recent conversation:\<newline>'' @
              join (str ''\<newline>'')
                (map (\<lambda>msg. (if type msg = User then str ''User'' else str ''Assistant'') @
                             str '': '' @ message msg) recent) @
              str ''\<newline>''
         else [])"

section \<open>Regular expressions\<close>

text \<open>
  The patterns of the source are written in a small abstract syntax and matched by a
  backtracking matcher that follows the ECMAScript semantics: \<open>matches\<close> returns the
  states in which a match of the pattern can end, in the order in which backtracking tries
  them, so the head of the list is the match that the engine reports.

  \<open>r+\<close> is written \<open>Seq r (Star True r)\<close> and \<open>r{1,6}\<close> is written
  \<open>Seq r (UpTo 5 r)\<close>. \<open>Group\<close> is the capture group of a pattern (no pattern of
  the source has more than one).
\<close>

definition ch :: "char \<Rightarrow> jschar" where
  "ch c = of_char c"

definition isWordChar :: "jschar \<Rightarrow> bool" where
  "isWordChar c =
     ((0x61 \<le> c \<and> c \<le> 0x7A) \<or> (0x41 \<le> c \<and> c \<le> 0x5A) \<or> (0x30 \<le> c \<and> c \<le> 0x39) \<or> c = 0x5F)"

definition isLineTerminator :: "jschar \<Rightarrow> bool" where
  "isLineTerminator c = (c = 0x0A \<or> c = 0x0D \<or> c = 0x2028 \<or> c = 0x2029)"

text \<open>
  Canonicalize of the \<open>i\<close> flag (without the \<open>u\<close> flag): a character is compared
  by its upper case, and a character outside ASCII never canonicalizes into ASCII. All the
  pattern characters of the source are ASCII, so only the ASCII letters need to be mapped.
\<close>

definition canonicalize :: "bool \<Rightarrow> jschar \<Rightarrow> jschar" where
  "canonicalize ignoreCase c = (if ignoreCase \<and> 0x61 \<le> c \<and> c \<le> 0x7A then c - 0x20 else c)"

datatype atom = AChar jschar | AWord | ASpace | ANotSpace

datatype regex =
    Eps
  | Lit jschar
  | Dot
  | CharSet bool "atom list"
  | Seq regex regex
  | Star bool regex
  | UpTo nat regex
  | Group regex
  | NotAhead regex
  | WordB

datatype mstate = MState (prev: "jschar option") (rest: jsstring) (cap: "jsstring option")

fun inAtom :: "bool \<Rightarrow> jschar \<Rightarrow> atom \<Rightarrow> bool" where
  "inAtom ic c (AChar a) = (canonicalize ic c = canonicalize ic a)"
| "inAtom ic c AWord = isWordChar c"
| "inAtom ic c ASpace = isWhiteSpace c"
| "inAtom ic c ANotSpace = (\<not> isWhiteSpace c)"

text \<open>The tests of the patterns that consume one code unit.\<close>

definition sameChar :: "bool \<Rightarrow> jschar \<Rightarrow> jschar \<Rightarrow> bool" where
  "sameChar ic a c = (canonicalize ic c = canonicalize ic a)"

definition notLineTerminator :: "jschar \<Rightarrow> bool" where
  "notLineTerminator c = (\<not> isLineTerminator c)"

definition inSet :: "bool \<Rightarrow> bool \<Rightarrow> atom list \<Rightarrow> jschar \<Rightarrow> bool" where
  "inSet ic negated as c = (list_ex (inAtom ic c) as \<noteq> negated)"

fun consume :: "(jschar \<Rightarrow> bool) \<Rightarrow> mstate \<Rightarrow> mstate list" where
  "consume P (MState p [] k) = []"
| "consume P (MState p (c # cs) k) = (if P c then [MState (Some c) cs k] else [])"

text \<open>
  The repetition of a matcher. An iteration that consumes nothing is rejected, as the
  RepeatMatcher of ECMAScript does; since a matcher only moves forward, every iteration
  that is kept shortens the rest of the input.
\<close>

function star :: "bool \<Rightarrow> (mstate \<Rightarrow> mstate list) \<Rightarrow> mstate \<Rightarrow> mstate list" where
  "star greedy m st =
     (let further = concat (map (star greedy m)
                             (filter (\<lambda>st'. length (rest st') < length (rest st)) (m st)))
      in if greedy then further @ [st] else st # further)"
  by pat_completeness auto
termination
  by (relation "measure (\<lambda>(greedy, m, st). length (rest st))") auto

declare star.simps [simp del]

text \<open>At most \<open>n\<close> iterations, as many as possible first.\<close>

fun upTo :: "nat \<Rightarrow> (mstate \<Rightarrow> mstate list) \<Rightarrow> mstate \<Rightarrow> mstate list" where
  "upTo n m st =
     (if n = 0 then [st]
      else concat (map (upTo (n - 1) m)
                    (filter (\<lambda>st'. length (rest st') < length (rest st)) (m st))) @ [st])"

declare upTo.simps [simp del]

definition isWordAt :: "jschar option \<Rightarrow> bool" where
  "isWordAt c = (case c of None \<Rightarrow> False | Some x \<Rightarrow> isWordChar x)"

definition nextChar :: "mstate \<Rightarrow> jschar option" where
  "nextChar st = (case rest st of [] \<Rightarrow> None | c # cs \<Rightarrow> Some c)"

definition capture :: "mstate \<Rightarrow> mstate \<Rightarrow> mstate" where
  "capture st st' =
     MState (prev st') (rest st') (Some (take (length (rest st) - length (rest st')) (rest st)))"

primrec matches :: "bool \<Rightarrow> regex \<Rightarrow> mstate \<Rightarrow> mstate list" where
  "matches ic Eps st = [st]"
| "matches ic (Lit a) st = consume (sameChar ic a) st"
| "matches ic Dot st = consume notLineTerminator st"
| "matches ic (CharSet negated as) st = consume (inSet ic negated as) st"
| "matches ic (Seq r1 r2) st = concat (map (matches ic r2) (matches ic r1 st))"
| "matches ic (Star greedy r) st = star greedy (matches ic r) st"
| "matches ic (UpTo n r) st = upTo n (matches ic r) st"
| "matches ic (Group r) st = map (capture st) (matches ic r st)"
| "matches ic (NotAhead r) st = (if matches ic r st = [] then [st] else [])"
| "matches ic WordB st = (if isWordAt (prev st) \<noteq> isWordAt (nextChar st) then [st] else [])"

fun seqs :: "regex list \<Rightarrow> regex" where
  "seqs [] = Eps"
| "seqs [r] = r"
| "seqs (r # rs) = Seq r (seqs rs)"

definition chars :: "string \<Rightarrow> regex list" where
  "chars s = map (\<lambda>c. Lit (ch c)) s"

text \<open>
  The replacement text of \<open>replace\<close>: a literal text, or \<open>$1\<close>, the text of the
  capture group (empty when the group did not take part in the match).
\<close>

datatype template = Text jsstring | Dollar1

fun expand :: "template \<Rightarrow> mstate \<Rightarrow> jsstring" where
  "expand (Text s) st = s"
| "expand Dollar1 st = (case cap st of None \<Rightarrow> [] | Some g \<Rightarrow> g)"

text \<open>
  \<open>String.prototype.replace\<close> with a pattern that has the \<open>g\<close> flag: the matches are
  searched from left to right, each search starting where the previous match ended (one
  code unit further after an empty match), and every match is replaced. The input is
  scanned once; the text that a replacement produces is not searched again.
  \<open>replaceFrom\<close> carries the code unit before the current position, for \<open>\b\<close>.
\<close>

function replaceFrom :: "bool \<Rightarrow> regex \<Rightarrow> template \<Rightarrow> jschar option \<Rightarrow> jsstring \<Rightarrow> jsstring" where
  "replaceFrom ic r t p cs =
     (case matches ic r (MState p cs None) of
        [] \<Rightarrow> (case cs of [] \<Rightarrow> [] | c # cs' \<Rightarrow> c # replaceFrom ic r t (Some c) cs')
      | st # _ \<Rightarrow>
          if length (rest st) < length cs
          then expand t st @ replaceFrom ic r t (prev st) (rest st)
          else expand t st @ (case cs of [] \<Rightarrow> [] | c # cs' \<Rightarrow> c # replaceFrom ic r t (Some c) cs'))"
  by pat_completeness auto
termination
  by (relation "measure (\<lambda>(ic, r, t, p, cs). length cs)") auto

declare replaceFrom.simps [simp del]

definition replace :: "bool \<Rightarrow> regex \<Rightarrow> template \<Rightarrow> jsstring \<Rightarrow> jsstring" where
  "replace ic r t s = replaceFrom ic r t None s"

text \<open>
  \<open>String.prototype.match\<close> with a pattern without the \<open>g\<close> flag: the first match,
  searched from the left; \<open>matchFrom\<close> gives the matched text (element 0 of the result
  array) or \<open>None\<close> for \<open>null\<close>.
\<close>

fun matchFrom :: "bool \<Rightarrow> regex \<Rightarrow> jschar option \<Rightarrow> jsstring \<Rightarrow> jsstring option" where
  "matchFrom ic r p cs =
     (case matches ic r (MState p cs None) of
        [] \<Rightarrow> (case cs of [] \<Rightarrow> None | c # cs' \<Rightarrow> matchFrom ic r (Some c) cs')
      | st # _ \<Rightarrow> Some (take (length cs - length (rest st)) cs))"

declare matchFrom.simps [simp del]

definition match :: "bool \<Rightarrow> regex \<Rightarrow> jsstring \<Rightarrow> jsstring option" where
  "match ic r s = matchFrom ic r None s"

section \<open>The sanitizers\<close>

text \<open>\<open>[^<]*\<close>\<close>

definition notLt :: regex where
  "notLt = Star True (CharSet True [AChar (ch CHR ''<'')])"

text \<open>\<open>/<script\b[^<]*(?:(?!<\/script>)<[^<]*)*<\/script>/gi\<close> and the same for iframe.\<close>

definition block :: "string \<Rightarrow> regex" where
  "block tag =
     seqs (chars (''<'' @ tag) @
           [WordB, notLt,
            Star True (seqs [NotAhead (seqs (chars (''</'' @ tag @ ''>''))), Lit (ch CHR ''<''), notLt])] @
           chars (''</'' @ tag @ ''>''))"

definition scriptRe :: regex where
  "scriptRe = block ''script''"

definition iframeRe :: regex where
  "iframeRe = block ''iframe''"

text \<open>\<open>/javascript:/gi\<close>\<close>

definition javascriptRe :: regex where
  "javascriptRe = seqs (chars ''javascript:'')"

text \<open>\<open>/on\w+\s*=/gi\<close>\<close>

definition handlerRe :: regex where
  "handlerRe =
     seqs (chars ''on'' @
           [CharSet False [AWord], Star True (CharSet False [AWord]),
            Star True (CharSet False [ASpace]), Lit (ch CHR ''='')])"

text \<open>\<open>sanitizeOutput\<close> of both API routes.\<close>

definition sanitizeOutput :: "jsstring \<Rightarrow> jsstring" where
  "sanitizeOutput text =
     trim (replace True handlerRe (Text [])
          (replace True javascriptRe (Text [])
          (replace True iframeRe (Text [])
          (replace True scriptRe (Text []) text))))"





text \<open>\<open>/\{[\s\S]*\}/\<close>, the pattern that finds the JSON text in the model's reply.\<close>

definition jsonRe :: regex where
  "jsonRe = seqs [Lit (ch CHR ''{''), Star True (CharSet False [ASpace, ANotSpace]), Lit (ch CHR ''}'')]"

section \<open>JSON.parse\<close>

text \<open>
  The grammar of JSON texts, as \<open>JSON.parse\<close> accepts it: a value between optional
  white space; the value is an object, an array, a string, a number or one of the three
  literals. Every parser returns the value and the input that is left, or \<open>None\<close>
  where \<open>JSON.parse\<close> throws a SyntaxError.
\<close>

definition isJsonSpace :: "jschar \<Rightarrow> bool" where
  "isJsonSpace c = (c = 0x20 \<or> c = 0x09 \<or> c = 0x0A \<or> c = 0x0D)"

definition skipSpace :: "jsstring \<Rightarrow> jsstring" where
  "skipSpace cs = dropWhile isJsonSpace cs"

definition isDigit :: "jschar \<Rightarrow> bool" where
  "isDigit c = (0x30 \<le> c \<and> c \<le> 0x39)"

definition hexValue :: "jschar \<Rightarrow> nat option" where
  "hexValue c =
     (if 0x30 \<le> c \<and> c \<le> 0x39 then Some (c - 0x30)
      else if 0x41 \<le> c \<and> c \<le> 0x46 then Some (c - 0x41 + 10)
      else if 0x61 \<le> c \<and> c \<le> 0x66 then Some (c - 0x61 + 10)
      else None)"

fun stripPrefix :: "jsstring \<Rightarrow> jsstring \<Rightarrow> jsstring option" where
  "stripPrefix [] cs = Some cs"
| "stripPrefix (p # ps) [] = None"
| "stripPrefix (p # ps) (c # cs) = (if p = c then stripPrefix ps cs else None)"

text \<open>The escape after a backslash, other than \<open>\u\<close>.\<close>

definition escapeChar :: "jschar \<Rightarrow> jschar option" where
  "escapeChar e =
     (if e = ch CHR 0x22 then Some 0x22
      else if e = ch CHR 0x5C then Some 0x5C
      else if e = ch CHR ''/'' then Some 0x2F
      else if e = ch CHR ''b'' then Some 0x08
      else if e = ch CHR ''f'' then Some 0x0C
      else if e = ch CHR ''n'' then Some 0x0A
      else if e = ch CHR ''r'' then Some 0x0D
      else if e = ch CHR ''t'' then Some 0x09
      else None)"

definition unicodeEscape :: "jsstring \<Rightarrow> (jschar \<times> jsstring) option" where
  "unicodeEscape cs =
     (case cs of
        a # b # c # d # cs' \<Rightarrow>
          (case (hexValue a, hexValue b, hexValue c, hexValue d) of
             (Some h1, Some h2, Some h3, Some h4) \<Rightarrow> Some (((h1 * 16 + h2) * 16 + h3) * 16 + h4, cs')
           | _ \<Rightarrow> None)
      | _ \<Rightarrow> None)"

text \<open>
  The characters of a string, after its opening quote and through its closing quote. A
  control character below U+0020 is not allowed unescaped.
\<close>

function parseChars :: "jsstring \<Rightarrow> (jsstring \<times> jsstring) option" where
  "parseChars cs =
     (case cs of
        [] \<Rightarrow> None
      | c # cs' \<Rightarrow>
          if c = 0x22 then Some ([], cs')
          else if c = 0x5C then
            (case cs' of
               [] \<Rightarrow> None
             | e # cs'' \<Rightarrow>
                 if e = ch CHR ''u'' then
                   (case unicodeEscape cs'' of
                      None \<Rightarrow> None
                    | Some (u, cs3) \<Rightarrow>
                        if length cs3 < length cs
                        then map_option (\<lambda>(s, r). (u # s, r)) (parseChars cs3)
                        else None)
                 else
                   (case escapeChar e of
                      None \<Rightarrow> None
                    | Some x \<Rightarrow> map_option (\<lambda>(s, r). (x # s, r)) (parseChars cs'')))
          else if c < 0x20 then None
          else map_option (\<lambda>(s, r). (c # s, r)) (parseChars cs'))"
  by pat_completeness auto
termination
  by (relation "measure length") auto

declare parseChars.simps [simp del]

text \<open>
  Numbers: \<open>-? (0 | [1-9][0-9]*) (. [0-9]+)? ([eE] [+-]? [0-9]+)?\<close>. The value is the
  exact value of the literal.
\<close>

definition digitsValue :: "jsstring \<Rightarrow> nat" where
  "digitsValue ds = foldl (\<lambda>n d. 10 * n + (d - 0x30)) 0 ds"

definition scale :: "rat \<Rightarrow> int \<Rightarrow> rat" where
  "scale q e = (if 0 \<le> e then q * 10 ^ nat e else q / 10 ^ nat (- e))"

definition parseExponent :: "jsstring \<Rightarrow> (int \<times> jsstring) option" where
  "parseExponent cs =
     (case cs of
        [] \<Rightarrow> Some (0, cs)
      | c # cs' \<Rightarrow>
          if c = ch CHR ''e'' \<or> c = ch CHR ''E'' then
            (let (negative, cs'') =
                   (case cs' of
                      [] \<Rightarrow> (False, cs')
                    | s # r \<Rightarrow> if s = ch CHR ''-'' then (True, r)
                               else if s = ch CHR ''+'' then (False, r) else (False, cs'));
                 ds = takeWhile isDigit cs''
             in if ds = [] then None
                else Some ((if negative then - int (digitsValue ds) else int (digitsValue ds)),
                           dropWhile isDigit cs''))
          else Some (0, cs))"

definition parseFraction :: "jsstring \<Rightarrow> (jsstring \<times> jsstring) option" where
  "parseFraction cs =
     (case cs of
        [] \<Rightarrow> Some ([], cs)
      | c # cs' \<Rightarrow>
          if c = ch CHR ''.'' then
            (let ds = takeWhile isDigit cs'
             in if ds = [] then None else Some (ds, dropWhile isDigit cs'))
          else Some ([], cs))"

definition parseNumber :: "jsstring \<Rightarrow> (rat \<times> jsstring) option" where
  "parseNumber cs =
     (let (negative, cs1) =
            (case cs of
               [] \<Rightarrow> (False, cs)
             | c # r \<Rightarrow> if c = ch CHR ''-'' then (True, r) else (False, cs));
          ip = takeWhile isDigit cs1
      in if ip = [] \<or> (hd ip = 0x30 \<and> length ip > 1) then None
         else
           (case parseFraction (dropWhile isDigit cs1) of
              None \<Rightarrow> None
            | Some (fp, cs2) \<Rightarrow>
                (case parseExponent cs2 of
                   None \<Rightarrow> None
                 | Some (e, cs3) \<Rightarrow>
                     (let q = scale (of_nat (digitsValue (ip @ fp))) (e - int (length fp))
                      in Some ((if negative then - q else q), cs3)))))"

text \<open>
  Values. \<open>parseElements\<close> reads the elements of an array after its opening bracket
  (the array is not empty), \<open>parseMembers\<close> the members of an object after its opening
  brace. The comparisons of lengths only record that a parser consumes input.
\<close>

function parseValue :: "jsstring \<Rightarrow> (json \<times> jsstring) option"
  and parseElements :: "jsstring \<Rightarrow> (json list \<times> jsstring) option"
  and parseMembers :: "jsstring \<Rightarrow> ((jsstring \<times> json) list \<times> jsstring) option"
where
  "parseValue cs =
     (case cs of
        [] \<Rightarrow> None
      | c # cs' \<Rightarrow>
          if c = ch CHR ''{'' then
            (case skipSpace cs' of
               [] \<Rightarrow> None
             | d # r \<Rightarrow>
                 if d = ch CHR ''}'' then Some (JObj [], r)
                 else map_option (\<lambda>(ms, r'). (JObj ms, r')) (parseMembers (skipSpace cs')))
          else if c = ch CHR ''['' then
            (case skipSpace cs' of
               [] \<Rightarrow> None
             | d # r \<Rightarrow>
                 if d = ch CHR '']'' then Some (JArr [], r)
                 else map_option (\<lambda>(vs, r'). (JArr vs, r')) (parseElements (skipSpace cs')))
          else if c = 0x22 then map_option (\<lambda>(s, r). (JStr s, r)) (parseChars cs')
          else if c = ch CHR ''t'' then map_option (\<lambda>r. (JBool True, r)) (stripPrefix (str ''true'') cs)
          else if c = ch CHR ''f'' then map_option (\<lambda>r. (JBool False, r)) (stripPrefix (str ''false'') cs)
          else if c = ch CHR ''n'' then map_option (\<lambda>r. (JNull, r)) (stripPrefix (str ''null'') cs)
          else map_option (\<lambda>(q, r). (JNum q, r)) (parseNumber cs))"
| "parseElements cs =
     (case parseValue cs of
        None \<Rightarrow> None
      | Some (v, r) \<Rightarrow>
          if length r < length cs then
            (case skipSpace r of
               [] \<Rightarrow> None
             | d # r' \<Rightarrow>
                 if d = ch CHR '','' then map_option (\<lambda>(vs, r''). (v # vs, r'')) (parseElements (skipSpace r'))
                 else if d = ch CHR '']'' then Some ([v], r')
                 else None)
          else None)"
| "parseMembers cs =
     (case cs of
        [] \<Rightarrow> None
      | q # cs1 \<Rightarrow>
          if q = 0x22 then
            (case parseChars cs1 of
               None \<Rightarrow> None
             | Some (k, r1) \<Rightarrow>
                 if length r1 < length cs then
                   (case skipSpace r1 of
                      [] \<Rightarrow> None
                    | d # r2 \<Rightarrow>
                        if d = ch CHR '':'' then
                          (case parseValue (skipSpace r2) of
                             None \<Rightarrow> None
                           | Some (v, r3) \<Rightarrow>
                               if length r3 < length cs then
                                 (case skipSpace r3 of
                                    [] \<Rightarrow> None
                                  | e # r4 \<Rightarrow>
                                      if e = ch CHR '','' then
                                        map_option (\<lambda>(ms, r5). ((k, v) # ms, r5)) (parseMembers (skipSpace r4))
                                      else if e = ch CHR ''}'' then Some ([(k, v)], r4)
                                      else None)
                               else None)
                        else None)
                 else None)
          else None)"
  by pat_completeness auto

termination
proof -
  have le: "length (skipSpace cs) \<le> length cs" for cs
    by (simp add: skipSpace_def length_dropWhile_le)
  have lt: "length r < length cs \<and> length (skipSpace r) < length cs"
    if "skipSpace cs = d # r" for cs d r
    using le [of cs] le [of r] that by simp
  show ?thesis
    apply (relation "measure (\<lambda>x. case x of Inl cs \<Rightarrow> 2 * length cs
                                  | Inr (Inl cs) \<Rightarrow> 2 * length cs + 1
                                  | Inr (Inr cs) \<Rightarrow> 2 * length cs + 1)")
    using le apply (auto dest!: lt)
    done
qed

declare parseValue.simps [simp del] parseElements.simps [simp del] parseMembers.simps [simp del]

definition JSON_parse :: "jsstring \<Rightarrow> json option" where
  "JSON_parse text =
     (case parseValue (skipSpace text) of
        None \<Rightarrow> None
      | Some (v, r) \<Rightarrow> if skipSpace r = [] then Some v else None)"

section \<open>The dataset descriptor and the prompts\<close>

text \<open>
  \<open>${n}\<close> for a number that is a non-negative integer below \<open>10^21\<close> (a row count,
  a length, an index): its decimal digits.
\<close>

function numberToString :: "nat \<Rightarrow> jsstring" where
  "numberToString n =
     (if n < 10 then [0x30 + n] else numberToString (n div 10) @ [0x30 + n mod 10])"
  by pat_completeness auto
termination
  by (relation "measure id") auto

declare numberToString.simps [simp del]

text \<open>
  \<open>CSVData\<close>. The rows of the sample have type \<open>any\<close>; the routes only pass them to
  \<open>JSON.stringify\<close>, which is an argument of the model.
\<close>

record 'row csvData =
  schema :: "jsstring list"
  rowCount :: nat
  sample :: "'row list"
  fileName :: jsstring

definition records :: "jsstring \<Rightarrow> ('row \<Rightarrow> jsstring) \<Rightarrow> 'row list \<Rightarrow> jsstring list" where
  "records label stringify rows =
     map (\<lambda>(index, row). label @ str '' '' @ numberToString (index + 1) @ str '': '' @ stringify row)
       (enumerate 0 rows)"

text \<open>The chat route.\<close>

definition chatSystemInstruction :: jsstring where
  \<open>chatSystemInstruction = str ''You are a professional business data analyst and AI assistant. Your role is to:\<newline>\<newline>1. Analyze CSV business data (sales, customers, revenue, expenses, churn, etc.)\<newline>2. Provide clear, actionable insights in simple language\<newline>3. Suggest specific business strategies and recommendations\<newline>4. Identify trends, patterns, and opportunities in the data\<newline>5. Offer quantitative analysis with numbers and percentages when possible\<newline>\<newline>Always be professional, accurate, and focus on business value. If asked about generating reports, mention that comprehensive business reports can be generated separately.\<newline>\<newline>Key areas to focus on:\<newline>- Revenue and profit analysis\<newline>- Customer behavior and churn patterns\<newline>- Sales performance and trends\<newline>- Cost optimization opportunities\<newline>- Growth forecasting and predictions\<newline>- Risk assessment and mitigation''\<close>

definition chatCsvContext :: "('row \<Rightarrow> jsstring) \<Rightarrow> 'row csvData option \<Rightarrow> jsstring" where
  "chatCsvContext stringify csv =
     (case csv of
        Some d \<Rightarrow>
          str ''\<newline>BUSINESS DATASET CONTEXT:\<newline>- File: '' @ fileName d @
          str ''\<newline>- Total Records: '' @ numberToString (rowCount d) @
          str ''\<newline>- Data Fields ('' @ numberToString (length (schema d)) @ str ''): '' @
          join (str '', '') (schema d) @
          str ''\<newline>\<newline>Sample Business Data ('' @ numberToString (length (sample d)) @
          str '' rows analyzed):\<newline>'' @
          join (str ''\<newline>'') (records (str ''Record'') stringify (sample d)) @
          str ''\<newline>\<newline>ANALYSIS SCOPE: This analysis covers '' @ numberToString (length (sample d)) @
          str '' sample records from a total dataset of '' @ numberToString (rowCount d) @
          str '' records. Insights are extrapolated to represent the full dataset where applicable.''
      | None \<Rightarrow>
          str ''No business data uploaded yet. Please upload a CSV file containing your business data (sales, customers, revenue, etc.) to begin analysis.'')"

definition chatPrompt :: "('row \<Rightarrow> jsstring) \<Rightarrow> jsstring \<Rightarrow> 'row csvData option \<Rightarrow> message list \<Rightarrow> jsstring" where
  "chatPrompt stringify question csv history =
     chatSystemInstruction @ str ''\<newline>\<newline>'' @ chatCsvContext stringify csv @ str ''\<newline>'' @
     historyContext history @ str ''\<newline>\<newline>Current user question: '' @ question @
     str ''\<newline>\<newline>Please provide a helpful, clear response based on the available data. If the question requires analysis of specific data that isn't in the sample, mention that the analysis is limited to the sample data shown.''"

text \<open>The report route.\<close>

definition reportSystemInstruction :: jsstring where
  \<open>reportSystemInstruction = str ''You are an expert data analyst. Analyze the uploaded business dataset and return insights in the following strict JSON format:\<newline>{\<newline>  "dataset_summary": { "rows": number, "columns": number },\<newline>  "churn_analysis": { "churn_rate": "%", "churn_loss": "currency", "key_segments": ["segment1","segment2"] },\<newline>  "financial_projections": { "current_revenue": "currency", "projected_revenue": {"3_months":"currency","6_months":"currency","12_months":"currency"}, "remaining_profit":"currency" },\<newline>  "demand_forecasting": { "trend": "increasing/decreasing/stable", "seasonal_spikes": ["Q1","Q4"] },\<newline>  "scenario_analysis": { "best_case":"currency", "worst_case":"currency", "most_likely":"currency" },\<newline>  "recommendations": ["action1","action2","action3"]\<newline>}\<newline>Do not include any extra text. Return only JSON.''\<close>

definition reportCsvContext :: "('row \<Rightarrow> jsstring) \<Rightarrow> 'row csvData \<Rightarrow> jsstring" where
  "reportCsvContext stringify d =
     str ''\<newline>BUSINESS DATASET CONTEXT:\<newline>- File: '' @ fileName d @
     str ''\<newline>- Total Records: '' @ numberToString (rowCount d) @
     str ''\<newline>- Data Fields ('' @ numberToString (length (schema d)) @ str ''): '' @
     join (str '', '') (schema d) @
     str ''\<newline>\<newline>Sample Business Data ('' @ numberToString (length (sample d)) @
     str '' rows analyzed):\<newline>'' @
     join (str ''\<newline>'') (records (str ''Record'') stringify (sample d)) @
     str ''\<newline>\<newline>ANALYSIS SCOPE: This analysis covers '' @ numberToString (length (sample d)) @
     str '' sample records from a total dataset of '' @ numberToString (rowCount d) @
     str '' records. Provide specific estimates and insights based on the data patterns observed.''"

definition reportPrompt :: "('row \<Rightarrow> jsstring) \<Rightarrow> 'row csvData \<Rightarrow> jsstring" where
  "reportPrompt stringify d =
     reportSystemInstruction @ str ''\<newline>\<newline>'' @ reportCsvContext stringify d @
     str ''\<newline>\<newline>Analyze this business data and provide comprehensive insights in the exact JSON format specified above. Include specific numbers, percentages, and actionable recommendations.''"

section \<open>JavaScript values read from JSON\<close>

text \<open>
  Truthiness, for \<open>||\<close> and \<open>!\<close>. A number is falsy when it is zero; the number
  that a literal denotes is the double nearest to its value, which is zero exactly for the
  values of magnitude at most \<open>2^-1075\<close>.
\<close>

fun truthy :: "json \<Rightarrow> bool" where
  "truthy JNull = False"
| "truthy (JBool b) = b"
| "truthy (JNum q) = (\<bar>q\<bar> > 1 / 2 ^ 1075)"
| "truthy (JStr s) = (s \<noteq> [])"
| "truthy (JArr vs) = True"
| "truthy (JObj ms) = True"

text \<open>
  Reading a property of a value that is not \<open>null\<close>; \<open>None\<close> is \<open>undefined\<close>. The
  routes read the properties \<open>candidates\<close>, \<open>content\<close>, \<open>parts\<close>, \<open>text\<close>, the
  six sections of a report and the index \<open>0\<close>; none of these names is a built-in property
  of arrays, strings, numbers or booleans.
\<close>

datatype key = Name jsstring | Index nat

fun getProp :: "json \<Rightarrow> key \<Rightarrow> json option" where
  "getProp (JObj ms) (Name k) = map_of (rev ms) k"
| "getProp (JObj ms) (Index i) = map_of (rev ms) (numberToString i)"
| "getProp (JArr vs) (Index i) = (if i < length vs then Some (vs ! i) else None)"
| "getProp (JStr s) (Index i) = (if i < length s then Some (JStr [s ! i]) else None)"
| "getProp v k = None"

text \<open>\<open>v?.k\<close>\<close>

fun optional :: "json option \<Rightarrow> key \<Rightarrow> json option" where
  "optional None k = None"
| "optional (Some JNull) k = None"
| "optional (Some v) k = getProp v k"

text \<open>
  What a \<open>catch\<close> of the routes can receive: an error of the platform with its message
  (from \<open>fetch\<close>, \<open>request.json()\<close> or \<open>response.json()\<close>), or the TypeError of
  the engine for a property of \<open>null\<close> or a call of a method that a value does not
  have (the message of such a TypeError does not contain the word fetch).
\<close>

datatype error = Failure jsstring | TypeError

text \<open>\<open>data.candidates?.[0]?.content?.parts?.[0]?.text\<close>\<close>

definition candidateText :: "json \<Rightarrow> error + json option" where
  "candidateText data =
     (case data of
        JNull \<Rightarrow> Inl TypeError
      | _ \<Rightarrow>
          Inr (optional (optional (optional (optional (optional
                 (getProp data (Name (str ''candidates''))) (Index 0))
                 (Name (str ''content''))) (Name (str ''parts''))) (Index 0)) (Name (str ''text''))))"

text \<open>\<open>v || d\<close>\<close>

fun orElse :: "json option \<Rightarrow> json \<Rightarrow> json" where
  "orElse None d = d"
| "orElse (Some v) d = (if truthy v then v else d)"

section \<open>The external model and the responses of the routes\<close>

text \<open>
  The outcome of \<open>fetch\<close>: it rejects with an error, or it resolves with a response
  that has a status and a body; \<open>response.json()\<close> rejects with an error (\<open>Inl\<close> its
  message) or gives the parsed body. The external service is a function from the prompt to
  such an outcome.
\<close>

datatype reply = Rejected jsstring | Replied nat "jsstring + json"

definition ok :: "nat \<Rightarrow> bool" where
  "ok st = (200 \<le> st \<and> st \<le> 299)"

datatype body = ErrorBody jsstring | ReportBody json | ResponseBody jsstring

record response =
  status :: nat
  body :: body

section \<open>POST /chat\<close>

text \<open>
  The request: \<open>request.json()\<close> rejects, or it gives \<open>message\<close> (absent when it is
  \<open>undefined\<close> or \<open>null\<close>), \<open>csvData\<close> and \<open>chatHistory\<close>.
\<close>

datatype 'row chat_request =
    ChatUnreadable jsstring
  | ChatRequest "jsstring option" "'row csvData option" "message list"

definition chatCatch :: "error \<Rightarrow> response" where
  "chatCatch e =
     (case e of
        Failure msg \<Rightarrow>
          if sublist (str ''fetch'') msg
          then \<lparr>status = 500, body = ErrorBody (str ''Network error. Please check your connection and try again.'')\<rparr>
          else \<lparr>status = 500, body = ErrorBody (str ''Failed to process your request. Please try again.'')\<rparr>
      | TypeError \<Rightarrow>
          \<lparr>status = 500, body = ErrorBody (str ''Failed to process your request. Please try again.'')\<rparr>)"

definition sentinel :: jsstring where
  "sentinel = str ''Sorry, I couldn't generate a response.''"

definition chatUpstreamError :: "nat \<Rightarrow> response" where
  "chatUpstreamError st =
     (if st = 429
      then \<lparr>status = 429, body = ErrorBody (str ''AI service quota exceeded. Please try again later.'')\<rparr>
      else if st = 401 \<or> st = 403
      then \<lparr>status = 500, body = ErrorBody (str ''AI service configuration error. Please check API key.'')\<rparr>
      else \<lparr>status = 500, body = ErrorBody (str ''Failed to get response from AI service.'')\<rparr>)"

definition chatAnswer :: "json \<Rightarrow> response" where
  "chatAnswer data =
     (case candidateText data of
        Inl e \<Rightarrow> chatCatch e
      | Inr v \<Rightarrow>
          (case orElse v (JStr sentinel) of
             JStr text \<Rightarrow> \<lparr>status = 200, body = ResponseBody (sanitizeOutput text)\<rparr>
           | _ \<Rightarrow> chatCatch TypeError))"

definition POST_chat ::
  "('row \<Rightarrow> jsstring) \<Rightarrow> (jsstring \<Rightarrow> reply) \<Rightarrow> 'row chat_request \<Rightarrow> response" where
  "POST_chat stringify gateway request =
     (case request of
        ChatUnreadable msg \<Rightarrow> chatCatch (Failure msg)
      | ChatRequest m csv history \<Rightarrow>
          (case m of
             None \<Rightarrow> \<lparr>status = 400, body = ErrorBody (str ''Message is required'')\<rparr>
           | Some question \<Rightarrow>
               if trim question = []
               then \<lparr>status = 400, body = ErrorBody (str ''Message is required'')\<rparr>
               else
                 (case gateway (chatPrompt stringify question csv history) of
                    Rejected msg \<Rightarrow> chatCatch (Failure msg)
                  | Replied st b \<Rightarrow>
                      if \<not> ok st then chatUpstreamError st
                      else
                        (case b of
                           Inl msg \<Rightarrow> chatCatch (Failure msg)
                         | Inr data \<Rightarrow> chatAnswer data))))"

section \<open>POST /generate-report\<close>

datatype 'row report_request =
    ReportUnreadable jsstring
  | ReportRequest "'row csvData option"

text \<open>What the inner \<open>try\<close> of the route can throw.\<close>

datatype rejection = NotJSON | NullReport | MissingSections

definition sectionOf :: "json \<Rightarrow> string \<Rightarrow> json option" where
  "sectionOf parsed name = getProp parsed (Name (str name))"

definition present :: "json option \<Rightarrow> bool" where
  "present v = (case v of None \<Rightarrow> False | Some x \<Rightarrow> truthy x)"

text \<open>\<open>JSON.parse(jsonMatch[0])\<close> and the validation of the required fields.\<close>

definition parseReport :: "jsstring \<Rightarrow> rejection + json" where
  "parseReport text =
     (case JSON_parse text of
        None \<Rightarrow> Inl NotJSON
      | Some JNull \<Rightarrow> Inl NullReport
      | Some parsed \<Rightarrow>
          if \<not> present (sectionOf parsed ''dataset_summary'') \<or>
             \<not> present (sectionOf parsed ''churn_analysis'') \<or>
             \<not> present (sectionOf parsed ''financial_projections'') \<or>
             \<not> present (sectionOf parsed ''demand_forecasting'') \<or>
             \<not> present (sectionOf parsed ''scenario_analysis'') \<or>
             \<not> present (sectionOf parsed ''recommendations'')
          then Inl MissingSections
          else Inr parsed)"

definition fallbackReport :: "'row csvData \<Rightarrow> json" where
  "fallbackReport d =
     JObj
      [(str ''dataset_summary'',
          JObj [(str ''rows'', JNum (of_nat (rowCount d))),
                (str ''columns'', JNum (of_nat (length (schema d))))]),
       (str ''churn_analysis'',
          JObj [(str ''churn_rate'', JStr (str ''15%'')),
                (str ''churn_loss'', JStr (str ''$50,000'')),
                (str ''key_segments'',
                   JArr [JStr (str ''High-value customers''), JStr (str ''Long-term subscribers'')])]),
       (str ''financial_projections'',
          JObj [(str ''current_revenue'', JStr (str ''$500,000'')),
                (str ''projected_revenue'',
                   JObj [(str ''3_months'', JStr (str ''$525,000'')),
                         (str ''6_months'', JStr (str ''$550,000'')),
                         (str ''12_months'', JStr (str ''$600,000''))]),
                (str ''remaining_profit'', JStr (str ''$200,000''))]),
       (str ''demand_forecasting'',
          JObj [(str ''trend'', JStr (str ''increasing'')),
                (str ''seasonal_spikes'', JArr [JStr (str ''Q4''), JStr (str ''Q1'')])]),
       (str ''scenario_analysis'',
          JObj [(str ''best_case'', JStr (str ''$750,000'')),
                (str ''worst_case'', JStr (str ''$400,000'')),
                (str ''most_likely'', JStr (str ''$600,000''))]),
       (str ''recommendations'',
          JArr [JStr (str ''Implement customer retention programs to reduce churn''),
                JStr (str ''Focus on high-value customer segments for growth''),
                JStr (str ''Optimize pricing strategy for seasonal demand'')])]"

definition reportFailed :: response where
  "reportFailed = \<lparr>status = 500, body = ErrorBody (str ''Failed to generate business report'')\<rparr>"

definition reportAnswer :: "'row csvData \<Rightarrow> json \<Rightarrow> response" where
  "reportAnswer d data =
     (case candidateText data of
        Inl e \<Rightarrow> reportFailed
      | Inr v \<Rightarrow>
          (case orElse v (JStr []) of
             JStr rawText \<Rightarrow>
               (case match False jsonRe (sanitizeOutput rawText) of
                  None \<Rightarrow> \<lparr>status = 500, body = ErrorBody (str ''Invalid response format from AI service'')\<rparr>
                | Some jsonMatch \<Rightarrow>
                    (case parseReport jsonMatch of
                       Inr parsed \<Rightarrow> \<lparr>status = 200, body = ReportBody parsed\<rparr>
                     | Inl e \<Rightarrow> \<lparr>status = 200, body = ReportBody (fallbackReport d)\<rparr>))
           | _ \<Rightarrow> reportFailed))"

definition POST_generate_report ::
  "('row \<Rightarrow> jsstring) \<Rightarrow> (jsstring \<Rightarrow> reply) \<Rightarrow> 'row report_request \<Rightarrow> response" where
  "POST_generate_report stringify gateway request =
     (case request of
        ReportUnreadable msg \<Rightarrow> reportFailed
      | ReportRequest None \<Rightarrow>
          \<lparr>status = 400, body = ErrorBody (str ''CSV data is required for report generation'')\<rparr>
      | ReportRequest (Some d) \<Rightarrow>
          (case gateway (reportPrompt stringify d) of
             Rejected msg \<Rightarrow> reportFailed
           | Replied st b \<Rightarrow>
               if \<not> ok st then reportFailed
               else
                 (case b of
                    Inl msg \<Rightarrow> reportFailed
                  | Inr data \<Rightarrow> reportAnswer d data)))"

section \<open>Tests on texts\<close>

text \<open>
  \<open>hasBraces\<close>: the text has an opening brace with a closing brace somewhere after it.
  \<open>noPair\<close>: no code unit that passes the first test is followed at once by one that
  passes the second.
\<close>

definition hasBraces :: "jsstring \<Rightarrow> bool" where
  "hasBraces s = (0x7D \<in> set (dropWhile (\<lambda>c. c \<noteq> 0x7B) s))"

fun noPair :: "(jschar \<Rightarrow> bool) \<Rightarrow> (jschar \<Rightarrow> bool) \<Rightarrow> jsstring \<Rightarrow> bool" where
  "noPair P Q (c # d # cs) = ((\<not> P c \<or> \<not> Q d) \<and> noPair P Q (d # cs))"
| "noPair P Q cs = True"

section \<open>The claimed history selection, and example conversations\<close>







text \<open>The condition of the validation of POST /chat: no message, or only white space.\<close>

definition blank :: "jsstring option \<Rightarrow> bool" where
  "blank m = (case m of None \<Rightarrow> True | Some s \<Rightarrow> list_all isWhiteSpace s)"

text \<open>
  A reply of the external model in its documented shape,
  \<open>{ candidates: [{ content: { parts: [{ text }] } }] }\<close>, and a service that always
  answers with status 200 and a given body.
\<close>

definition modelReply :: "jsstring \<Rightarrow> json" where
  "modelReply text =
     JObj [(str ''candidates'',
            JArr [JObj [(str ''content'',
                         JObj [(str ''parts'', JArr [JObj [(str ''text'', JStr text)]])])]])]"

definition answering :: "json \<Rightarrow> jsstring \<Rightarrow> reply" where
  "answering data prompt = Replied 200 (Inr data)"

text \<open>The dataset of the first end-to-end scenario, with five empty rows as its sample.\<close>

definition salesData :: "unit csvData" where
  "salesData =
     \<lparr>schema = [str ''date'', str ''revenue'', str ''customer_id''], rowCount = 1000,
      sample = [(), (), (), (), ()], fileName = str ''sales.csv''\<rparr>"

definition noRows :: "unit \<Rightarrow> jsstring" where
  "noRows row = str ''{}''"




definition refusal :: jsstring where
  "refusal = str ''I cannot analyse this dataset.''"

text \<open>A reply with braces that is not JSON, and the empty object.\<close>

definition brokenReply :: jsstring where
  "brokenReply = str ''Here you go: {rows: 7} - done''"

definition emptyObject :: jsstring where
  "emptyObject = str ''{}''"

text \<open>The names of the six sections that the report route requires.\<close>

definition requiredSections :: "string list" where
  "requiredSections =
     [''dataset_summary'', ''churn_analysis'', ''financial_projections'',
      ''demand_forecasting'', ''scenario_analysis'', ''recommendations'']"

text \<open>
  A complete report as the model may return it, the same report with two strings that the
  sanitizer treats as a script block, and a reply that wraps a text in a code fence.
\<close>

definition goodReport :: jsstring where
  \<open>goodReport = str ''{"dataset_summary":{"rows":1000,"columns":3},"churn_analysis":{"churn_rate":"12%","churn_loss":"$40,000","key_segments":["New customers"]},"financial_projections":{"current_revenue":"$500,000","projected_revenue":{"3_months":"$510,000","6_months":"$530,000","12_months":"$580,000"},"remaining_profit":"$150,000"},"demand_forecasting":{"trend":"increasing","seasonal_spikes":["Q4"]},"scenario_analysis":{"best_case":"$700,000","worst_case":"$450,000","most_likely":"$580,000"},"recommendations":["Retain new customers"]}''\<close>

definition riskyReport :: jsstring where
  \<open>riskyReport = str ''{"dataset_summary":{"rows":1000,"columns":3},"churn_analysis":{"churn_rate":"<script","churn_loss":"$40,000","key_segments":["</script>"]},"financial_projections":{"current_revenue":"$500,000","projected_revenue":{"3_months":"$510,000","6_months":"$530,000","12_months":"$580,000"},"remaining_profit":"$150,000"},"demand_forecasting":{"trend":"increasing","seasonal_spikes":["Q4"]},"scenario_analysis":{"best_case":"$700,000","worst_case":"$450,000","most_likely":"$580,000"},"recommendations":["Retain new customers"]}''\<close>

definition fenced :: "jsstring \<Rightarrow> jsstring" where
  "fenced text = str ''```json\<newline>'' @ text @ str ''\<newline>```''"

definition goodParsed :: json where
  "goodParsed =
     JObj [(str ''dataset_summary'', JObj [(str ''rows'', JNum 1000), (str ''columns'', JNum 3)]),
       (str ''churn_analysis'', JObj [(str ''churn_rate'', JStr (str ''12%'')), (str
       ''churn_loss'', JStr (str ''$40,000'')), (str ''key_segments'', JArr [JStr (str ''New
       customers'')])]), (str ''financial_projections'', JObj [(str ''current_revenue'', JStr
       (str ''$500,000'')), (str ''projected_revenue'', JObj [(str ''3_months'', JStr (str
       ''$510,000'')), (str ''6_months'', JStr (str ''$530,000'')), (str ''12_months'', JStr
       (str ''$580,000''))]), (str ''remaining_profit'', JStr (str ''$150,000''))]), (str
       ''demand_forecasting'', JObj [(str ''trend'', JStr (str ''increasing'')), (str
       ''seasonal_spikes'', JArr [JStr (str ''Q4'')])]), (str ''scenario_analysis'', JObj [(str
       ''best_case'', JStr (str ''$700,000'')), (str ''worst_case'', JStr (str ''$450,000'')),
       (str ''most_likely'', JStr (str ''$580,000''))]), (str ''recommendations'', JArr [JStr
       (str ''Retain new customers'')])]"

definition riskyParsed :: json where
  "riskyParsed =
     JObj [(str ''dataset_summary'', JObj [(str ''rows'', JNum 1000), (str ''columns'', JNum 3)]),
       (str ''churn_analysis'', JObj [(str ''churn_rate'', JStr (str ''<script'')), (str
       ''churn_loss'', JStr (str ''$40,000'')), (str ''key_segments'', JArr [JStr (str
       ''</script>'')])]), (str ''financial_projections'', JObj [(str ''current_revenue'', JStr
       (str ''$500,000'')), (str ''projected_revenue'', JObj [(str ''3_months'', JStr (str
       ''$510,000'')), (str ''6_months'', JStr (str ''$530,000'')), (str ''12_months'', JStr
       (str ''$580,000''))]), (str ''remaining_profit'', JStr (str ''$150,000''))]), (str
       ''demand_forecasting'', JObj [(str ''trend'', JStr (str ''increasing'')), (str
       ''seasonal_spikes'', JArr [JStr (str ''Q4'')])]), (str ''scenario_analysis'', JObj [(str
       ''best_case'', JStr (str ''$700,000'')), (str ''worst_case'', JStr (str ''$450,000'')),
       (str ''most_likely'', JStr (str ''$580,000''))]), (str ''recommendations'', JArr [JStr
       (str ''Retain new customers'')])]"

section \<open>Trimming\<close>

lemma trimEnd_Nil_iff: "trimEnd s = [] \<longleftrightarrow> list_all isWhiteSpace s"
  by (induction s) (auto split: list.splits)

lemma trim_Nil_iff: "trim s = [] \<longleftrightarrow> list_all isWhiteSpace s"
proof -
  have "list_all isWhiteSpace (dropWhile isWhiteSpace s) \<longleftrightarrow> list_all isWhiteSpace s"
    by (induction s) auto
  then show ?thesis by (simp add: trim_def trimEnd_Nil_iff)
qed




lemma trimEnd_id: "s \<noteq> [] \<Longrightarrow> \<not> isWhiteSpace (last s) \<Longrightarrow> trimEnd s = s"
  by (induction s) (auto split: list.splits if_splits)

lemma trim_id: "s \<noteq> [] \<Longrightarrow> \<not> isWhiteSpace (hd s) \<Longrightarrow> \<not> isWhiteSpace (last s) \<Longrightarrow> trim s = s"
  by (cases s) (auto simp: trim_def trimEnd_id simp del: trimEnd.simps)

section \<open>Clearing the chat\<close>

text \<open>
  Claim C9, as the code has it: whatever the page held before, after
  \<open>handleClearChat\<close> the conversation has exactly one entry, the bot greeting stamped
  with the current clock value. Clearing again gives the same entry with a renewed
  timestamp: type and text are equal, the timestamp is that of the latest clear.
\<close>

theorem clear_chat_yields_greeting:
  "chatHistory (handleClearChat now st) = [\<lparr>type = Bot, message = greeting, timestamp = now, report = None\<rparr>]
   \<and> length (chatHistory (handleClearChat now st)) = 1
   \<and> chatHistory (handleClearChat now' (handleClearChat now st)) =
       map (\<lambda>m. m\<lparr>timestamp := now'\<rparr>) (chatHistory (handleClearChat now st))"
  by (simp add: handleClearChat_def)

text \<open>
  Claim C9 as stated asks for an equal conversation after the second clear. Clearing at
  clock value 1 and again at clock value 2 leaves conversations that differ in the
  timestamp of the greeting.
\<close>

theorem clear_chat_again_not_equal:
  "chatHistory (handleClearChat 2 (handleClearChat 1 \<lparr>chatHistory = [], localStorage = Map.empty\<rparr>))
   \<noteq> chatHistory (handleClearChat 1 \<lparr>chatHistory = [], localStorage = Map.empty\<rparr>)"
  by (simp add: handleClearChat_def)

section \<open>The history put into the chat prompt\<close>






section \<open>The matcher only moves forward\<close>

lemma consume_suffix: "st' \<in> set (consume P st) \<Longrightarrow> suffix (rest st') (rest st)"
  by (cases "(P, st)" rule: consume.cases) (auto simp: suffix_Cons split: if_splits)

lemma star_suffix:
  "(\<And>st st'. st' \<in> set (m st) \<Longrightarrow> suffix (rest st') (rest st)) \<Longrightarrow>
   st' \<in> set (star g m st) \<Longrightarrow> suffix (rest st') (rest st)"
proof (induction g m st arbitrary: st' rule: star.induct)
  case (1 greedy m st)
  from "1.prems"(2) consider "st' = st"
    | mid where "mid \<in> set (m st)" "length (rest mid) < length (rest st)"
        "st' \<in> set (star greedy m mid)"
    by (subst (asm) star.simps) (auto simp: Let_def split: if_splits)
  then show ?case
  proof cases
    case 1
    then show ?thesis by simp
  next
    case 2
    then have "suffix (rest st') (rest mid)"
      using "1.IH" [of mid st'] "1.prems"(1) by simp
    moreover have "suffix (rest mid) (rest st)"
      using 2 "1.prems"(1) by blast
    ultimately show ?thesis by (rule suffix_order.trans)
  qed
qed

lemma upTo_suffix:
  "(\<And>st st'. st' \<in> set (m st) \<Longrightarrow> suffix (rest st') (rest st)) \<Longrightarrow>
   st' \<in> set (upTo n m st) \<Longrightarrow> suffix (rest st') (rest st)"
proof (induction n m st arbitrary: st' rule: upTo.induct)
  case (1 n m st)
  from "1.prems"(2) consider "st' = st"
    | mid where "n \<noteq> 0" "mid \<in> set (m st)" "length (rest mid) < length (rest st)"
        "st' \<in> set (upTo (n - 1) m mid)"
    by (subst (asm) upTo.simps) (auto split: if_splits)
  then show ?case
  proof cases
    case 1
    then show ?thesis by simp
  next
    case 2
    then have "suffix (rest st') (rest mid)"
      using "1.IH" [of mid st'] "1.prems"(1) by simp
    moreover have "suffix (rest mid) (rest st)"
      using 2 "1.prems"(1) by blast
    ultimately show ?thesis by (rule suffix_order.trans)
  qed
qed

lemma matches_suffix: "st' \<in> set (matches ic r st) \<Longrightarrow> suffix (rest st') (rest st)"
proof (induction r arbitrary: st st')
  case (Seq r1 r2)
  from Seq.prems obtain mid where "mid \<in> set (matches ic r1 st)" "st' \<in> set (matches ic r2 mid)"
    by auto
  then show ?case using Seq.IH by (blast intro: suffix_order.trans)
next
  case (Star g r)
  then show ?case using star_suffix [of "matches ic r" st' g st] by simp
next
  case (UpTo n r)
  then show ?case using upTo_suffix [of "matches ic r" st' n st] by simp
next
  case (Group r)
  then show ?case by (auto simp: capture_def)
qed (auto dest: consume_suffix split: if_splits)

section \<open>Texts in which a pattern cannot match\<close>

lemma replaceFrom_no_match:
  "matchFrom ic r p cs = None \<Longrightarrow> replaceFrom ic r t p cs = cs"
proof (induction cs arbitrary: p)
  case Nil
  then show ?case
    by (subst replaceFrom.simps, subst (asm) matchFrom.simps) (auto split: list.splits)
next
  case (Cons c cs)
  from Cons.prems have m: "matches ic r (MState p (c # cs) None) = []"
    and n: "matchFrom ic r (Some c) cs = None"
    by (subst (asm) matchFrom.simps, auto split: list.splits)+
  show ?case
    by (subst replaceFrom.simps) (simp add: m Cons.IH [OF n])
qed

lemma replace_no_match: "match ic r s = None \<Longrightarrow> replace ic r t s = s"
  by (simp add: match_def replace_def replaceFrom_no_match)

lemma matchFrom_dead:
  "(\<And>p u. suffix u cs \<Longrightarrow> matches ic r (MState p u None) = []) \<Longrightarrow> matchFrom ic r p cs = None"
proof (induction cs arbitrary: p)
  case Nil
  then show ?case by (subst matchFrom.simps) simp
next
  case (Cons c cs)
  have "matchFrom ic r (Some c) cs = None"
    by (rule Cons.IH) (simp add: Cons.prems suffix_Cons)
  moreover have "matches ic r (MState p (c # cs) None) = []"
    by (rule Cons.prems) simp
  ultimately show ?case by (subst matchFrom.simps) simp
qed

text \<open>A pattern that starts with a character that the text does not have.\<close>

lemma first_char_absent:
  assumes "list_all (\<lambda>c. \<not> sameChar ic a c) s"
  shows "matchFrom ic (Seq (Lit a) r) p s = None"
proof (rule matchFrom_dead)
  fix q u
  assume "suffix u s"
  then have "set u \<subseteq> set s" by (rule set_mono_suffix)
  with assms have "list_all (\<lambda>c. \<not> sameChar ic a c) u" by (auto simp: list_all_iff)
  then show "matches ic (Seq (Lit a) r) (MState q u None) = []"
    by (cases u) auto
qed

text \<open>A pattern that starts with two characters that are nowhere adjacent in the text.\<close>

lemma noPair_suffix: "noPair P Q s \<Longrightarrow> suffix u s \<Longrightarrow> noPair P Q u"
  by (induction P Q s rule: noPair.induct) (auto simp: suffix_Cons)

lemma first_pair_absent:
  assumes "noPair (sameChar ic a) (sameChar ic b) s"
  shows "matchFrom ic (Seq (Lit a) (Seq (Lit b) r)) p s = None"
proof (rule matchFrom_dead)
  fix q u
  assume "suffix u s"
  with assms have n: "noPair (sameChar ic a) (sameChar ic b) u" by (rule noPair_suffix)
  show "matches ic (Seq (Lit a) (Seq (Lit b) r)) (MState q u None) = []"
  proof (cases u)
    case Nil
    then show ?thesis by simp
  next
    case (Cons c v)
    with n show ?thesis by (cases v) auto
  qed
qed

text \<open>A pattern that ends with a character that the text does not have.\<close>

lemma seq_dead:
  assumes "\<And>p u k. suffix u s \<Longrightarrow> matches ic r2 (MState p u k) = []" and "suffix v s"
  shows "matches ic (Seq r1 r2) (MState p v k) = []"
proof -
  have "matches ic r2 mid = []" if "mid \<in> set (matches ic r1 (MState p v k))" for mid
  proof -
    from that have "suffix (rest mid) v" using matches_suffix by fastforce
    with assms(2) have "suffix (rest mid) s" by (rule suffix_order.trans [rotated])
    then show ?thesis using assms(1) [of "rest mid" "prev mid" "cap mid"] by simp
  qed
  then show ?thesis by simp
qed

lemma lit_dead:
  assumes "list_all (\<lambda>c. \<not> sameChar ic a c) s" and "suffix u s"
  shows "matches ic (Lit a) (MState p u k) = []"
proof -
  from assms(2) have "set u \<subseteq> set s" by (rule set_mono_suffix)
  with assms(1) have "list_all (\<lambda>c. \<not> sameChar ic a c) u" by (auto simp: list_all_iff)
  then show ?thesis by (cases u) auto
qed

section \<open>The patterns of the sanitizers\<close>

lemma block_first: "\<exists>r. block tag = Seq (Lit (ch CHR ''<'')) r"
  by (cases tag) (auto simp: block_def chars_def)

lemma no_block:
  assumes "list_all (\<lambda>c. c \<noteq> 0x3C) s"
  shows "match True (block tag) s = None"
proof -
  obtain r where r: "block tag = Seq (Lit (ch CHR ''<'')) r" using block_first by blast
  have "list_all (\<lambda>c. \<not> sameChar True (ch CHR ''<'') c) s"
    using assms by (auto simp: list_all_iff sameChar_def canonicalize_def ch_def)
  then show ?thesis unfolding match_def r by (rule first_char_absent)
qed

lemma no_javascript:
  assumes "noPair (\<lambda>c. c = 0x6A \<or> c = 0x4A) (\<lambda>c. c = 0x61 \<or> c = 0x41) s"
  shows "match True javascriptRe s = None"
proof -
  have j: "sameChar True (ch CHR ''j'') = (\<lambda>c. c = 0x6A \<or> c = 0x4A)"
    and a: "sameChar True (ch CHR ''a'') = (\<lambda>c. c = 0x61 \<or> c = 0x41)"
    by (auto simp: sameChar_def canonicalize_def ch_def fun_eq_iff)
  obtain r where r: "javascriptRe = Seq (Lit (ch CHR ''j'')) (Seq (Lit (ch CHR ''a'')) r)"
    by (simp add: javascriptRe_def chars_def)
  have "matchFrom True (Seq (Lit (ch CHR ''j'')) (Seq (Lit (ch CHR ''a'')) r)) None s = None"
    by (rule first_pair_absent) (simp add: j a assms)
  then show ?thesis by (simp only: match_def r)
qed

lemma seqs_dead:
  assumes "rs \<noteq> []"
    and "\<And>p u k. suffix u s \<Longrightarrow> matches ic (last rs) (MState p u k) = []"
    and "suffix v s"
  shows "matches ic (seqs rs) (MState p v k) = []"
  using assms
proof (induction rs arbitrary: p v k rule: seqs.induct)
  case 1
  then show ?case by simp
next
  case (2 r)
  then show ?case by simp
next
  case (3 r r' rs)
  have "matches ic (Seq r (seqs (r' # rs))) (MState p v k) = []"
  proof (rule seq_dead)
    show "suffix v s" by (rule "3.prems"(3))
  next
    fix q u j
    assume "suffix u s"
    then show "matches ic (seqs (r' # rs)) (MState q u j) = []"
      using "3.IH" [of u q j] "3.prems"(2) by simp
  qed
  then show ?case by simp
qed

lemma no_handler:
  assumes "list_all (\<lambda>c. c \<noteq> 0x3D) s"
  shows "match True handlerRe s = None"
proof -
  have eq: "list_all (\<lambda>c. \<not> sameChar True (ch CHR ''='') c) s"
    using assms by (auto simp: list_all_iff sameChar_def canonicalize_def ch_def)
  have "matches True handlerRe (MState p u None) = []" if "suffix u s" for p u
    unfolding handlerRe_def
  proof (rule seqs_dead)
    show "suffix u s" by (rule that)
  next
    show "chars ''on'' @ [CharSet False [AWord], Star True (CharSet False [AWord]),
            Star True (CharSet False [ASpace]), Lit (ch CHR ''='')] \<noteq> []"
      by simp
  next
    fix q v k
    assume "suffix v s"
    with eq show "matches True (last (chars ''on'' @ [CharSet False [AWord], Star True (CharSet False [AWord]),
            Star True (CharSet False [ASpace]), Lit (ch CHR ''='')])) (MState q v k) = []"
      by (simp del: matches.simps add: lit_dead)
  qed
  then show ?thesis unfolding match_def by (rule matchFrom_dead)
qed

section \<open>The pattern that finds the JSON text\<close>

lemma matches_consume:
  "matches ic (Lit a) = consume (sameChar ic a)"
  "matches ic (CharSet negated as) = consume (inSet ic negated as)"
  "matches ic Dot = consume notLineTerminator"
  by (rule ext, simp)+

lemma sameChar_exact: "sameChar False a c \<longleftrightarrow> c = a"
  by (simp add: sameChar_def canonicalize_def)

lemma any_star:
  "star True (consume (inSet ic False [ASpace, ANotSpace])) (MState p (c # cs) k) =
   star True (consume (inSet ic False [ASpace, ANotSpace])) (MState (Some c) cs k) @ [MState p (c # cs) k]"
  by (subst star.simps) (simp add: inSet_def)

lemma any_star_Nil:
  "star True (consume (inSet ic False [ASpace, ANotSpace])) (MState p [] k) = [MState p [] k]"
  by (subst star.simps) simp

lemma no_closing:
  "0x7D \<notin> set cs \<Longrightarrow>
   concat (map (consume (sameChar False 0x7D))
     (star True (consume (inSet False False [ASpace, ANotSpace])) (MState p cs k))) = []"
proof (induction cs arbitrary: p)
  case Nil
  then show ?case by (simp add: any_star_Nil)
next
  case (Cons c cs)
  then have "consume (sameChar False 0x7D) (MState p (c # cs) k) = []"
    by (simp add: sameChar_exact)
  with Cons show ?case by (simp add: any_star)
qed

lemma last_closing:
  "0x7D \<notin> set post \<Longrightarrow>
   \<exists>others. concat (map (consume (sameChar False 0x7D))
     (star True (consume (inSet False False [ASpace, ANotSpace])) (MState p (mid @ 0x7D # post) k))) =
     MState (Some 0x7D) post k # others"
proof (induction mid arbitrary: p)
  case Nil
  have "consume (sameChar False 0x7D) (MState p (0x7D # post) k) = [MState (Some 0x7D) post k]"
    by (simp add: sameChar_exact)
  with Nil show ?case by (simp add: any_star no_closing)
next
  case (Cons c mid)
  from Cons.IH [OF Cons.prems, of "Some c"] show ?case
    by (auto simp: any_star)
qed

lemma jsonRe_unfold:
  "matches False jsonRe (MState p (c # cs) k) =
   (if c = 0x7B
    then concat (map (consume (sameChar False 0x7D))
           (star True (consume (inSet False False [ASpace, ANotSpace])) (MState (Some c) cs k)))
    else [])"
  by (simp add: jsonRe_def ch_def matches_consume) (simp add: sameChar_exact)

lemma jsonRe_Nil: "matches False jsonRe (MState p [] k) = []"
  by (simp add: jsonRe_def)

lemma json_no_closing: "0x7D \<notin> set cs \<Longrightarrow> matchFrom False jsonRe p cs = None"
proof (rule matchFrom_dead)
  fix q u
  assume "0x7D \<notin> set cs" "suffix u cs"
  then have "0x7D \<notin> set u" using set_mono_suffix by fastforce
  then show "matches False jsonRe (MState q u None) = []"
    by (cases u) (simp_all add: jsonRe_Nil jsonRe_unfold no_closing)
qed

lemma json_skip:
  "0x7B \<notin> set pre \<Longrightarrow>
   matchFrom False jsonRe p (pre @ cs) = matchFrom False jsonRe (if pre = [] then p else Some (last pre)) cs"
proof (induction pre arbitrary: p)
  case Nil
  then show ?case by simp
next
  case (Cons c pre)
  then show ?case
    by (subst matchFrom.simps) (simp add: jsonRe_unfold)
qed

lemma json_span:
  assumes "0x7B \<notin> set pre" "0x7D \<notin> set post"
  shows "match False jsonRe (pre @ 0x7B # mid @ 0x7D # post) = Some (0x7B # mid @ [0x7D])"
proof -
  obtain others where o:
    "matches False jsonRe (MState (if pre = [] then None else Some (last pre)) (0x7B # mid @ 0x7D # post) None) =
     MState (Some 0x7D) post None # others"
    using last_closing [OF assms(2), of "Some 0x7B" mid None] by (auto simp: jsonRe_unfold)
  show ?thesis
    unfolding match_def json_skip [OF assms(1)]
    by (subst matchFrom.simps) (simp add: o)
qed

lemma hasBraces_split:
  "hasBraces s \<longleftrightarrow> (\<exists>pre mid post. s = pre @ 0x7B # mid @ 0x7D # post \<and> 0x7B \<notin> set pre \<and> 0x7D \<notin> set post)"
proof
  assume "hasBraces s"
  then have c: "0x7D \<in> set (dropWhile (\<lambda>c. c \<noteq> 0x7B) s)" by (simp add: hasBraces_def)
  then have "dropWhile (\<lambda>c. c \<noteq> 0x7B) s \<noteq> []" by (metis empty_iff empty_set)
  then obtain rest' where d: "dropWhile (\<lambda>c. c \<noteq> 0x7B) s = 0x7B # rest'"
    using hd_dropWhile [of "\<lambda>c. c \<noteq> 0x7B" s] by (cases "dropWhile (\<lambda>c. c \<noteq> 0x7B) s") auto
  with c have "0x7D \<in> set rest'" by simp
  then obtain mid post where m: "rest' = mid @ 0x7D # post" "0x7D \<notin> set post"
    by (meson split_list_last)
  have "s = takeWhile (\<lambda>c. c \<noteq> 0x7B) s @ 0x7B # mid @ 0x7D # post"
    using d m by (metis takeWhile_dropWhile_id)
  moreover have "0x7B \<notin> set (takeWhile (\<lambda>c. c \<noteq> 0x7B) s)"
    by (auto dest: set_takeWhileD)
  ultimately show "\<exists>pre mid post. s = pre @ 0x7B # mid @ 0x7D # post \<and> 0x7B \<notin> set pre \<and> 0x7D \<notin> set post"
    using m(2) by blast
next
  assume "\<exists>pre mid post. s = pre @ 0x7B # mid @ 0x7D # post \<and> 0x7B \<notin> set pre \<and> 0x7D \<notin> set post"
  then obtain pre mid post where s: "s = pre @ 0x7B # mid @ 0x7D # post" and p: "0x7B \<notin> set pre"
    by blast
  from p have "dropWhile (\<lambda>c. c \<noteq> 0x7B) (pre @ 0x7B # mid @ 0x7D # post) = 0x7B # mid @ 0x7D # post"
    by (induction pre) auto
  then show "hasBraces s" by (simp add: hasBraces_def s)
qed

lemma match_json_None: "match False jsonRe s = None \<longleftrightarrow> \<not> hasBraces s"
proof
  assume n: "match False jsonRe s = None"
  show "\<not> hasBraces s"
  proof
    assume "hasBraces s"
    then obtain pre mid post where "s = pre @ 0x7B # mid @ 0x7D # post" "0x7B \<notin> set pre" "0x7D \<notin> set post"
      using hasBraces_split by blast
    then show False using json_span n by simp
  qed
next
  assume h: "\<not> hasBraces s"
  let ?pre = "takeWhile (\<lambda>c. c \<noteq> 0x7B) s" and ?rest = "dropWhile (\<lambda>c. c \<noteq> 0x7B) s"
  have p: "0x7B \<notin> set ?pre" by (auto dest: set_takeWhileD)
  from h have "0x7D \<notin> set ?rest" by (simp add: hasBraces_def)
  then have "matchFrom False jsonRe (if ?pre = [] then None else Some (last ?pre)) ?rest = None"
    by (rule json_no_closing)
  moreover have "matchFrom False jsonRe None (?pre @ ?rest) =
      matchFrom False jsonRe (if ?pre = [] then None else Some (last ?pre)) ?rest"
    by (rule json_skip [OF p])
  ultimately have "matchFrom False jsonRe None (?pre @ ?rest) = None" by simp
  then show "match False jsonRe s = None" by (simp only: match_def takeWhile_dropWhile_id)
qed

section \<open>The sanitizer on texts without its patterns\<close>

lemma sanitizeOutput_unchanged:
  assumes "match True scriptRe s = None" "match True iframeRe s = None"
    "match True javascriptRe s = None" "match True handlerRe s = None"
  shows "sanitizeOutput s = trim s"
  using assms by (simp add: sanitizeOutput_def replace_no_match)

lemma sanitizeOutput_plain:
  assumes "list_all (\<lambda>c. c \<noteq> 0x3C) s" "list_all (\<lambda>c. c \<noteq> 0x3D) s"
    "noPair (\<lambda>c. c = 0x6A \<or> c = 0x4A) (\<lambda>c. c = 0x61 \<or> c = 0x41) s"
  shows "sanitizeOutput s = trim s"
  using assms
  by (intro sanitizeOutput_unchanged) (simp_all add: scriptRe_def iframeRe_def no_block no_javascript no_handler)


section \<open>The validation of the chat message\<close>

lemma status_chatCatch: "status (chatCatch e) = 500"
  by (simp add: chatCatch_def split: error.splits)

lemma status_chatUpstreamError: "status (chatUpstreamError st) = 429 \<or> status (chatUpstreamError st) = 500"
  by (simp add: chatUpstreamError_def)

lemma status_chatAnswer: "status (chatAnswer data) = 200 \<or> status (chatAnswer data) = 500"
  by (simp add: chatAnswer_def status_chatCatch split: sum.splits json.splits)

lemma chat_blank:
  "blank m \<Longrightarrow> POST_chat stringify gateway (ChatRequest m csv history) =
     \<lparr>status = 400, body = ErrorBody (str ''Message is required'')\<rparr>"
  by (simp add: POST_chat_def blank_def trim_Nil_iff split: option.splits)

lemma chat_not_blank:
  "\<not> blank m \<Longrightarrow> status (POST_chat stringify gateway (ChatRequest m csv history)) \<in> {200, 429, 500}"
  using status_chatUpstreamError status_chatAnswer
  by (auto simp: POST_chat_def blank_def trim_Nil_iff status_chatCatch split: option.splits reply.splits sum.splits)

text \<open>
  Claim C7: POST /chat answers 400, with an error body, exactly when the message of the
  request is absent, empty or made of white space only; for every other message, whatever
  the external service does, the status is 200, 429 or 500.
\<close>

theorem chat_400_iff_blank:
  "(status (POST_chat stringify gateway (ChatRequest m csv history)) = 400) = blank m
   \<and> (if blank m
      then POST_chat stringify gateway (ChatRequest m csv history) =
             \<lparr>status = 400, body = ErrorBody (str ''Message is required'')\<rparr>
      else status (POST_chat stringify gateway (ChatRequest m csv history)) \<in> {200, 429, 500})"
proof (cases "blank m")
  case True
  then show ?thesis by (simp add: chat_blank)
next
  case False
  with chat_not_blank [of m stringify gateway csv history] show ?thesis by auto
qed

text \<open>The second end-to-end scenario (the empty message), and a message that is not blank.\<close>

theorem chat_400_iff_blank_witness:
  "POST_chat noRows (answering (modelReply (str ''fine''))) (ChatRequest (Some []) (Some salesData) []) =
     \<lparr>status = 400, body = ErrorBody (str ''Message is required'')\<rparr>
   \<and> status (POST_chat noRows (answering (modelReply (str ''fine''))) (ChatRequest (Some (str '' x '')) (Some salesData) [])) \<noteq> 400"
proof -
  have "blank (Some [])" by (simp add: blank_def)
  moreover have "\<not> blank (Some (str '' x ''))" by (simp add: blank_def str_def isWhiteSpace_def)
  ultimately show ?thesis
    using chat_400_iff_blank [of noRows "answering (modelReply (str ''fine''))" "Some []" "Some salesData" "[]"]
      chat_400_iff_blank [of noRows "answering (modelReply (str ''fine''))" "Some (str '' x '')" "Some salesData" "[]"]
    by simp
qed

section \<open>The reply without a text\<close>






section \<open>The dataset context of the chat prompt\<close>







section \<open>Evaluating the JSON parser and the matcher on given texts\<close>

lemmas jsonEval = JSON_parse_def parseValue.simps parseElements.simps parseMembers.simps parseChars.simps
  parseNumber_def parseFraction_def parseExponent_def digitsValue_def scale_def skipSpace_def isJsonSpace_def
  isDigit_def hexValue_def escapeChar_def unicodeEscape_def ch_def str_def

lemma json_fenced:
  assumes "0x7B \<notin> set pre" "0x7D \<notin> set post" "b \<noteq> []" "hd b = 0x7B" "last b = 0x7D"
  shows "match False jsonRe (pre @ b @ post) = Some b"
proof -
  from assms(3,4) obtain t where t: "b = 0x7B # t" by (cases b) auto
  with assms(5) have "t \<noteq> []" "last t = 0x7D" by (auto split: if_splits)
  then have "t = butlast t @ [0x7D]" by (metis append_butlast_last_id)
  with t have "pre @ b @ post = pre @ 0x7B # butlast t @ 0x7D # post" "b = 0x7B # butlast t @ [0x7D]"
    by simp_all
  then show ?thesis using json_span [OF assms(1,2), of "butlast t"] by simp
qed

section \<open>The sections of a report that the route returns\<close>

lemma fallback_sections:
  "present (sectionOf (fallbackReport d) ''dataset_summary'')"
  "present (sectionOf (fallbackReport d) ''churn_analysis'')"
  "present (sectionOf (fallbackReport d) ''financial_projections'')"
  "present (sectionOf (fallbackReport d) ''demand_forecasting'')"
  "present (sectionOf (fallbackReport d) ''scenario_analysis'')"
  "present (sectionOf (fallbackReport d) ''recommendations'')"
  by (simp_all add: fallbackReport_def sectionOf_def present_def str_def)






section \<open>Replies of the model, evaluated\<close>

lemma candidateText_modelReply: "candidateText (modelReply t) = Inr (Some (JStr t))"
  by (simp add: candidateText_def modelReply_def str_def)

lemma report_answering:
  "POST_generate_report stringify (answering data) (ReportRequest (Some d)) = reportAnswer d data"
  by (simp add: POST_generate_report_def answering_def ok_def)

lemma reportAnswer_modelReply:
  "t \<noteq> [] \<Longrightarrow> reportAnswer d (modelReply t) =
     (case match False jsonRe (sanitizeOutput t) of
        None \<Rightarrow> \<lparr>status = 500, body = ErrorBody (str ''Invalid response format from AI service'')\<rparr>
      | Some m \<Rightarrow>
          (case parseReport m of
             Inr parsed \<Rightarrow> \<lparr>status = 200, body = ReportBody parsed\<rparr>
           | Inl e \<Rightarrow> \<lparr>status = 200, body = ReportBody (fallbackReport d)\<rparr>))"
  by (simp add: reportAnswer_def candidateText_modelReply)





section \<open>Replies that are not a report\<close>

lemma reportAnswer_text:
  assumes "candidateText data = Inr v" "orElse v (JStr []) = JStr raw"
  shows "reportAnswer d data =
     (case match False jsonRe (sanitizeOutput raw) of
        None \<Rightarrow> \<lparr>status = 500, body = ErrorBody (str ''Invalid response format from AI service'')\<rparr>
      | Some m \<Rightarrow>
          (case parseReport m of
             Inr parsed \<Rightarrow> \<lparr>status = 200, body = ReportBody parsed\<rparr>
           | Inl e \<Rightarrow> \<lparr>status = 200, body = ReportBody (fallbackReport d)\<rparr>))"
  using assms by (simp add: reportAnswer_def)

lemma report_replied:
  assumes "gateway (reportPrompt stringify d) = Replied st (Inr data)" "ok st"
  shows "POST_generate_report stringify gateway (ReportRequest (Some d)) = reportAnswer d data"
  using assms by (simp add: POST_generate_report_def)

lemma sanitize_refusal: "sanitizeOutput refusal = refusal"
proof -
  have "sanitizeOutput refusal = trim refusal"
    by (rule sanitizeOutput_plain) (simp_all add: refusal_def str_def)
  also have "trim refusal = refusal"
    by (rule trim_id) (simp_all add: refusal_def str_def isWhiteSpace_def)
  finally show ?thesis .
qed

text \<open>
  Claim C1 as stated fails for a reply without braces: the route has a guard for it and
  answers 500.
\<close>

theorem report_without_braces_counterexample:
  "\<not> hasBraces refusal
   \<and> POST_generate_report noRows (answering (modelReply refusal)) (ReportRequest (Some salesData)) =
       \<lparr>status = 500, body = ErrorBody (str ''Invalid response format from AI service'')\<rparr>"
proof -
  have h: "\<not> hasBraces refusal" by (simp add: hasBraces_def refusal_def str_def)
  then have "match False jsonRe refusal = None" by (simp add: match_json_None)
  moreover have "refusal \<noteq> []" by (simp add: refusal_def str_def)
  ultimately show ?thesis
    using h by (simp add: report_answering reportAnswer_modelReply sanitize_refusal)
qed

text \<open>
  Claim C1, as the code has it. The reply of the model is sanitized and searched for a
  text in braces. When there is none, the route answers 500 "Invalid response format from
  AI service". When there is one, the route answers 200; and when that text is not JSON
  or lacks a required section, the report of the answer is the fallback, with all six
  sections.
\<close>

theorem malformed_reply_gets_fallback:
  assumes "gateway (reportPrompt stringify d) = Replied st (Inr data)" "ok st"
    and "candidateText data = Inr v" "orElse v (JStr []) = JStr raw"
  shows "(\<not> hasBraces (sanitizeOutput raw) \<longrightarrow>
            POST_generate_report stringify gateway (ReportRequest (Some d)) =
              \<lparr>status = 500, body = ErrorBody (str ''Invalid response format from AI service'')\<rparr>)
    \<and> (hasBraces (sanitizeOutput raw) \<longrightarrow>
            status (POST_generate_report stringify gateway (ReportRequest (Some d))) = 200)
    \<and> (match False jsonRe (sanitizeOutput raw) = Some m \<and> parseReport m = Inl e \<longrightarrow>
            POST_generate_report stringify gateway (ReportRequest (Some d)) =
              \<lparr>status = 200, body = ReportBody (fallbackReport d)\<rparr>)
    \<and> list_all (\<lambda>name. present (sectionOf (fallbackReport d) name)) requiredSections"
proof -
  let ?P = "POST_generate_report stringify gateway (ReportRequest (Some d))"
  have P: "?P =
     (case match False jsonRe (sanitizeOutput raw) of
        None \<Rightarrow> \<lparr>status = 500, body = ErrorBody (str ''Invalid response format from AI service'')\<rparr>
      | Some m \<Rightarrow>
          (case parseReport m of
             Inr parsed \<Rightarrow> \<lparr>status = 200, body = ReportBody parsed\<rparr>
           | Inl e \<Rightarrow> \<lparr>status = 200, body = ReportBody (fallbackReport d)\<rparr>))"
    by (simp only: report_replied [where gateway = gateway, OF assms(1,2)] reportAnswer_text [OF assms(3,4)])
  have 1: "?P = \<lparr>status = 500, body = ErrorBody (str ''Invalid response format from AI service'')\<rparr>"
    if "\<not> hasBraces (sanitizeOutput raw)"
    using that by (simp add: P match_json_None [symmetric])
  have 2: "status ?P = 200" if "hasBraces (sanitizeOutput raw)"
  proof -
    from that have "match False jsonRe (sanitizeOutput raw) \<noteq> None" by (simp add: match_json_None)
    then show ?thesis by (auto simp: P split: sum.splits)
  qed
  have 3: "?P = \<lparr>status = 200, body = ReportBody (fallbackReport d)\<rparr>"
    if "match False jsonRe (sanitizeOutput raw) = Some m" "parseReport m = Inl e"
    using that by (simp add: P)
  have 4: "list_all (\<lambda>name. present (sectionOf (fallbackReport d) name)) requiredSections"
    by (simp add: requiredSections_def fallback_sections)
  from 1 2 3 4 show ?thesis by blast
qed

lemma sanitize_brokenReply: "sanitizeOutput brokenReply = brokenReply"
proof -
  have "sanitizeOutput brokenReply = trim brokenReply"
    by (rule sanitizeOutput_plain) (simp_all add: brokenReply_def str_def)
  also have "trim brokenReply = brokenReply"
    by (rule trim_id) (simp_all add: brokenReply_def str_def isWhiteSpace_def)
  finally show ?thesis .
qed

lemma match_brokenReply: "match False jsonRe brokenReply = Some (str ''{rows: 7}'')"
  using json_fenced [of "str ''Here you go: ''" "str '' - done''" "str ''{rows: 7}''"]
  by (simp add: brokenReply_def str_def)

lemma parse_brokenReply: "parseReport (str ''{rows: 7}'') = Inl NotJSON"
  by (simp add: parseReport_def jsonEval)

text \<open>A reply whose text in braces is not JSON: the answer is 200 with the fallback.\<close>

theorem malformed_reply_gets_fallback_witness:
  "ok 200 \<and> hasBraces (sanitizeOutput brokenReply)
   \<and> match False jsonRe (sanitizeOutput brokenReply) = Some (str ''{rows: 7}'')
   \<and> parseReport (str ''{rows: 7}'') = Inl NotJSON
   \<and> POST_generate_report noRows (answering (modelReply brokenReply)) (ReportRequest (Some salesData)) =
       \<lparr>status = 200, body = ReportBody (fallbackReport salesData)\<rparr>"
proof -
  have g: "answering (modelReply brokenReply) (reportPrompt noRows salesData) =
      Replied 200 (Inr (modelReply brokenReply))"
    by (simp add: answering_def)
  have o: "ok 200" by (simp add: ok_def)
  have e: "orElse (Some (JStr brokenReply)) (JStr []) = JStr brokenReply"
    by (simp add: brokenReply_def str_def)
  have h: "hasBraces (sanitizeOutput brokenReply)"
    by (simp add: sanitize_brokenReply) (simp add: hasBraces_def brokenReply_def str_def)
  have m: "match False jsonRe (sanitizeOutput brokenReply) = Some (str ''{rows: 7}'')"
    by (simp add: sanitize_brokenReply match_brokenReply)
  from malformed_reply_gets_fallback [where gateway = "answering (modelReply brokenReply)"
      and stringify = noRows and m = "str ''{rows: 7}''" and e = NotJSON,
      OF g o candidateText_modelReply e] h m parse_brokenReply o
  show ?thesis by simp
qed

section \<open>The fallback report\<close>

text \<open>
  Claim C10: whenever the route takes the fallback path (the reply has a text in braces
  that is not JSON or lacks a required section), the report it returns has the row count
  of the dataset and the number of its columns in \<open>dataset_summary\<close>, and its other
  five sections are the same for every dataset.
\<close>

theorem fallback_mirrors_dataset:
  assumes "gateway (reportPrompt stringify d) = Replied st (Inr data)" "ok st"
    and "candidateText data = Inr v" "orElse v (JStr []) = JStr raw"
    and "match False jsonRe (sanitizeOutput raw) = Some m" "parseReport m = Inl e"
  shows "POST_generate_report stringify gateway (ReportRequest (Some d)) =
           \<lparr>status = 200, body = ReportBody (fallbackReport d)\<rparr>
    \<and> sectionOf (fallbackReport d) ''dataset_summary'' =
          Some (JObj [(str ''rows'', JNum (of_nat (rowCount d))),
                      (str ''columns'', JNum (of_nat (length (schema d))))])
    \<and> sectionOf (fallbackReport d) ''churn_analysis'' = sectionOf (fallbackReport d') ''churn_analysis''
    \<and> sectionOf (fallbackReport d) ''financial_projections'' = sectionOf (fallbackReport d') ''financial_projections''
    \<and> sectionOf (fallbackReport d) ''demand_forecasting'' = sectionOf (fallbackReport d') ''demand_forecasting''
    \<and> sectionOf (fallbackReport d) ''scenario_analysis'' = sectionOf (fallbackReport d') ''scenario_analysis''
    \<and> sectionOf (fallbackReport d) ''recommendations'' = sectionOf (fallbackReport d') ''recommendations''
    \<and> (\<exists>others. fallbackReport d = JObj ((str ''dataset_summary'', JObj [(str ''rows'', JNum (of_nat (rowCount d))),
                      (str ''columns'', JNum (of_nat (length (schema d))))]) # others)
                 \<and> map fst others = map str (tl requiredSections))"
proof -
  have "POST_generate_report stringify gateway (ReportRequest (Some d)) =
           \<lparr>status = 200, body = ReportBody (fallbackReport d)\<rparr>"
    using assms(5,6)
    by (simp add: report_replied [where gateway = gateway, OF assms(1,2)] reportAnswer_text [OF assms(3,4)])
  moreover have "sectionOf (fallbackReport d) ''dataset_summary'' =
          Some (JObj [(str ''rows'', JNum (of_nat (rowCount d))),
                      (str ''columns'', JNum (of_nat (length (schema d))))])"
    by (simp add: fallbackReport_def sectionOf_def str_def)
  moreover have "sectionOf (fallbackReport d) ''churn_analysis'' = sectionOf (fallbackReport d') ''churn_analysis''"
    "sectionOf (fallbackReport d) ''financial_projections'' = sectionOf (fallbackReport d') ''financial_projections''"
    "sectionOf (fallbackReport d) ''demand_forecasting'' = sectionOf (fallbackReport d') ''demand_forecasting''"
    "sectionOf (fallbackReport d) ''scenario_analysis'' = sectionOf (fallbackReport d') ''scenario_analysis''"
    "sectionOf (fallbackReport d) ''recommendations'' = sectionOf (fallbackReport d') ''recommendations''"
    by (simp_all add: fallbackReport_def sectionOf_def str_def)
  moreover have "\<exists>others. fallbackReport d = JObj ((str ''dataset_summary'', JObj [(str ''rows'', JNum (of_nat (rowCount d))),
                      (str ''columns'', JNum (of_nat (length (schema d))))]) # others)
                 \<and> map fst others = map str (tl requiredSections)"
    by (simp add: fallbackReport_def requiredSections_def)
  ultimately show ?thesis by blast
qed

lemma sanitize_emptyObject: "sanitizeOutput emptyObject = emptyObject"
proof -
  have "sanitizeOutput emptyObject = trim emptyObject"
    by (rule sanitizeOutput_plain) (simp_all add: emptyObject_def str_def)
  also have "trim emptyObject = emptyObject"
    by (rule trim_id) (simp_all add: emptyObject_def str_def isWhiteSpace_def)
  finally show ?thesis .
qed

lemma match_emptyObject: "match False jsonRe emptyObject = Some emptyObject"
  using json_fenced [of "[]" "[]" emptyObject] by (simp add: emptyObject_def str_def)

lemma parse_emptyObject: "parseReport emptyObject = Inl MissingSections"
  by (simp add: parseReport_def emptyObject_def sectionOf_def present_def jsonEval)

text \<open>
  The model answers \<open>{}\<close> for the dataset of the first scenario: the fallback reports
  1000 rows and 3 columns.
\<close>

theorem fallback_mirrors_dataset_witness:
  "ok 200 \<and> match False jsonRe (sanitizeOutput emptyObject) = Some emptyObject
   \<and> parseReport emptyObject = Inl MissingSections
   \<and> body (POST_generate_report noRows (answering (modelReply emptyObject)) (ReportRequest (Some salesData))) =
       ReportBody (fallbackReport salesData)
   \<and> sectionOf (fallbackReport salesData) ''dataset_summary'' =
       Some (JObj [(str ''rows'', JNum 1000), (str ''columns'', JNum 3)])"
proof -
  have g: "answering (modelReply emptyObject) (reportPrompt noRows salesData) =
      Replied 200 (Inr (modelReply emptyObject))"
    by (simp add: answering_def)
  have o: "ok 200" by (simp add: ok_def)
  have e: "orElse (Some (JStr emptyObject)) (JStr []) = JStr emptyObject"
    by (simp add: emptyObject_def str_def)
  have m: "match False jsonRe (sanitizeOutput emptyObject) = Some emptyObject"
    by (simp add: sanitize_emptyObject match_emptyObject)
  from fallback_mirrors_dataset [where gateway = "answering (modelReply emptyObject)"
      and stringify = noRows and d' = salesData, OF g o candidateText_modelReply e m parse_emptyObject]
    o m parse_emptyObject
  show ?thesis by (simp add: salesData_def)
qed

section \<open>What the sanitizers guarantee\<close>











end
